theory Spec2Isabelle
  imports Main "HOL-Library.Word"
begin

unbundle bit_operations_syntax

section \<open>Constants of the HTTP library and of the platform\<close>

text \<open>
  The file-system responder \<^verbatim>\<open>fs.c\<close> is written against libmicrohttpd. The library's
  header is not part of the repository; the constants below carry the values that header
  gives them. The two reader sentinels are negative, so no byte count equals one of them.
\<close>

definition MHD_CONTENT_READER_END_OF_STREAM :: int where
  "MHD_CONTENT_READER_END_OF_STREAM = - 1"

definition MHD_CONTENT_READER_END_WITH_ERROR :: int where
  "MHD_CONTENT_READER_END_WITH_ERROR = - 2"

definition MHD_SIZE_UNKNOWN :: "64 word" where
  "MHD_SIZE_UNKNOWN = - 1"

definition MHD_HTTP_OK :: nat where
  "MHD_HTTP_OK = 200"

definition MHD_HTTP_MOVED_PERMANENTLY :: nat where
  "MHD_HTTP_MOVED_PERMANENTLY = 301"

definition MHD_HTTP_NOT_FOUND :: nat where
  "MHD_HTTP_NOT_FOUND = 404"

definition MHD_HTTP_HEADER_LOCATION :: string where
  "MHD_HTTP_HEADER_LOCATION = ''Location''"

definition MHD_HTTP_HEADER_ACCESS_CONTROL_ALLOW_ORIGIN :: string where
  "MHD_HTTP_HEADER_ACCESS_CONTROL_ALLOW_ORIGIN = ''Access-Control-Allow-Origin''"

datatype MHD_Result = MHD_NO | MHD_YES

text \<open>The macro \<^verbatim>\<open>PAGE_404\<close> of \<^verbatim>\<open>fs.c\<close>: six adjacent literals, joined by the compiler.\<close>

definition PAGE_404 :: string where
  "PAGE_404 =
     ''<html>'' @
       ''<head>'' @
         ''<title>File not found</title>'' @
       ''</head>'' @
       ''<body>File not found</body>'' @
     ''</html>''"

text \<open>
  Behaviour that C leaves undefined is a value of the model, never an unspecified HOL term:
  reading past the end of the URL, writing past the end of the redirect buffer, calling
  \<^verbatim>\<open>readdir\<close> on a null handle, and reading an automatic object after its function
  has returned.
\<close>

datatype undefined_behaviour = OutOfBounds | BufferOverflow | NullHandle | UseAfterReturn

section \<open>Open files and directories\<close>

text \<open>
  A \<^verbatim>\<open>FILE*\<close> as \<^verbatim>\<open>on_file_read\<close> sees it. The callback seeks before every read, so
  the stream position is no part of the state: \<open>fread\<close> takes the position that
  \<^verbatim>\<open>fseek\<close> has just set. \<open>f_seek_fails\<close> says at which offsets \<^verbatim>\<open>fseek\<close> fails;
  \<open>f_read_fault pos = Some k\<close> says that a read at \<open>pos\<close> hits a device error after \<open>k\<close>
  bytes, which sets the stream's error indicator \<open>f_error\<close>. The parameter \<^verbatim>\<open>max\<close> of the
  source is written \<open>max'\<close> throughout.
\<close>

record FILE =
  f_id :: nat
  f_bytes :: string
  f_seek_fails :: "nat \<Rightarrow> bool"
  f_read_fault :: "nat \<Rightarrow> nat option"
  f_error :: bool

definition fseek :: "FILE \<Rightarrow> nat \<Rightarrow> bool" where
  "fseek file pos = f_seek_fails file pos"

definition fread :: "FILE \<Rightarrow> nat \<Rightarrow> nat \<Rightarrow> string \<times> FILE" where
  "fread file pos max' =
     (let avail = take max' (drop pos (f_bytes file))
      in case f_read_fault file pos of
           None \<Rightarrow> (avail, file)
         | Some k \<Rightarrow> (take k avail, file\<lparr>f_error := True\<rparr>))"

definition ferror :: "FILE \<Rightarrow> bool" where
  "ferror file = f_error file"

text \<open>A \<^verbatim>\<open>DIR*\<close>: the entries \<^verbatim>\<open>readdir\<close> has not returned yet, in enumeration order.\<close>

record DIR =
  d_id :: nat
  d_entries :: "string list"

definition readdir :: "DIR \<Rightarrow> string option \<times> DIR" where
  "readdir d =
     (case d_entries d of
        [] \<Rightarrow> (None, d)
      | e # es \<Rightarrow> (Some e, d\<lparr>d_entries := es\<rparr>))"

text \<open>
  \<^verbatim>\<open>snprintf(buf, max, ...)\<close> for an expansion \<open>s\<close> of the format: it stores at most
  \<open>max' - 1\<close> characters and a terminating NUL, and returns the length of the whole
  expansion, whether or not it fitted. Sizes are natural numbers and the result an
  integer: the lengths in question are those of paths and entry names, far below the
  ranges of \<^verbatim>\<open>size_t\<close> and \<^verbatim>\<open>int\<close>.
\<close>

definition snprintf :: "nat \<Rightarrow> string \<Rightarrow> string \<times> int" where
  "snprintf max' s =
     ((if max' = 0 then [] else take (max' - 1) s @ [CHR 0x00]), int (length s))"

section \<open>The file reader\<close>

text \<open>
  \<^verbatim>\<open>on_file_read(cls, pos, buf, max)\<close>. The result is the returned \<^verbatim>\<open>ssize_t\<close>, the bytes
  stored at the start of \<open>buf\<close>, and the stream afterwards.
\<close>

definition on_file_read :: "FILE \<Rightarrow> nat \<Rightarrow> nat \<Rightarrow> int \<times> string \<times> FILE" where
  "on_file_read file pos max' =
     (if fseek file pos then (MHD_CONTENT_READER_END_WITH_ERROR, [], file)
      else
        (case fread file pos max' of
           (buf, file') \<Rightarrow>
             if length buf = 0 then
               (if ferror file' then (MHD_CONTENT_READER_END_WITH_ERROR, [], file')
                else (MHD_CONTENT_READER_END_OF_STREAM, [], file'))
             else (int (length buf), buf, file')))"

section \<open>The directory reader\<close>

text \<open>
  The struct \<^verbatim>\<open>dir_read_sm_t\<close>; \<open>sm_dir = None\<close> is the null handle. The field
  \<^verbatim>\<open>int state\<close> is an integer: the code increments it in the phases 0, 1 and 2 only, so
  it never wraps.
\<close>

record dir_read_sm =
  sm_path :: string
  sm_dir :: "DIR option"
  sm_state :: int

text \<open>The comparison \<^verbatim>\<open>e->d_name[0] == '.'\<close>; an empty name starts with its NUL.\<close>

definition starts_with_dot :: "string \<Rightarrow> bool" where
  "starts_with_dot name = (case name of [] \<Rightarrow> False | c # _ \<Rightarrow> c = CHR ''.'')"

text \<open>
  The expansions of the three formats of \<^verbatim>\<open>on_dir_read\<close>. The first format is eight
  adjacent literals, with the blanks that stand inside their quotes; both of its \<^verbatim>\<open>%s\<close>
  take the path, and both \<^verbatim>\<open>%s\<close> of the second take the entry's name.
\<close>

definition header_format :: "string \<Rightarrow> string" where
  "header_format path =
     ''<!DOCTYPE html>'' @
     ''<html>'' @
     ''  <head>'' @
     ''    <title>Index of '' @ path @ ''</title>'' @
     ''  </head>'' @
     ''  <body>'' @
     ''    <h1>Index of '' @ path @ ''</h1>'' @
     ''    <ul>''"

definition entry_format :: "string \<Rightarrow> string" where
  "entry_format name =
     ''<li><a href='' @ [CHR 0x22] @ name @ [CHR 0x22] @ ''>'' @ name @ ''</a></li>''"

definition footer_format :: string where
  "footer_format = ''</ul></body></html>''"

text \<open>
  \<^verbatim>\<open>on_dir_read(cls, pos, buf, max)\<close> on the state machine \<open>sm\<close> that \<open>cls\<close> points to. The
  result is the returned value, the bytes stored at the start of \<open>buf\<close>, and the state
  machine afterwards.
\<close>

definition on_dir_read ::
  "dir_read_sm \<Rightarrow> nat \<Rightarrow> nat \<Rightarrow> undefined_behaviour + (int \<times> string \<times> dir_read_sm)" where
  "on_dir_read sm pos max' =
     (if max' < 512 then Inr (0, [], sm)
      else if sm_state sm = 0 then
        (case snprintf max' (header_format (sm_path sm)) of
           (buf, res) \<Rightarrow> Inr (res, buf, sm\<lparr>sm_state := sm_state sm + 1\<rparr>))
      else if sm_state sm = 1 then
        (case sm_dir sm of
           None \<Rightarrow> Inl NullHandle
         | Some d \<Rightarrow>
             (case readdir d of
                (None, d') \<Rightarrow>
                  Inr (0, [], sm\<lparr>sm_dir := Some d', sm_state := sm_state sm + 1\<rparr>)
              | (Some name, d') \<Rightarrow>
                  if starts_with_dot name then Inr (0, [], sm\<lparr>sm_dir := Some d'\<rparr>)
                  else
                    (case snprintf max' (entry_format name) of
                       (buf, res) \<Rightarrow> Inr (res, buf, sm\<lparr>sm_dir := Some d'\<rparr>))))
      else if sm_state sm = 2 then
        (case snprintf max' footer_format of
           (buf, res) \<Rightarrow> Inr (res, buf, sm\<lparr>sm_state := sm_state sm + 1\<rparr>))
      else Inr (MHD_CONTENT_READER_END_OF_STREAM, [], sm))"

section \<open>Responses and the HTTP layer's queue\<close>

text \<open>
  A response is a list of headers and a content: a fixed buffer, or a declared size, a
  block size and the callbacks with their closure. \<open>FileReader file\<close> stands for the triple
  \<^verbatim>\<open>(&on_file_read, file, &on_file_close)\<close>, and \<open>DirReader a\<close> for
  \<^verbatim>\<open>(&on_dir_read, &sm, &on_dir_close)\<close>, where \<open>a\<close> is the address of \<open>sm\<close>.
\<close>

type_synonym addr = nat

datatype reader = FileReader FILE | DirReader addr

datatype content = Buffer string | Callback "64 word" nat reader

record MHD_Response =
  resp_headers :: "(string \<times> string) list"
  resp_content :: content

text \<open>
  What a request leaves behind: the responses handed to \<^verbatim>\<open>MHD_queue_response\<close> on the
  connection with their status codes, the handles opened and closed, and the automatic
  objects that are alive (\<open>locals\<close>, indexed by address; \<open>sp\<close> is the next free address of
  the stack).
\<close>

datatype event = Opened nat | Closed nat

record world =
  queued :: "(nat \<times> MHD_Response) list"
  events :: "event list"
  locals :: "addr \<Rightarrow> dir_read_sm option"
  sp :: addr

text \<open>
  What a request finds: the file system (\<^verbatim>\<open>stat\<close>, \<^verbatim>\<open>fopen\<close> and \<^verbatim>\<open>opendir\<close>, with
  \<open>None\<close> for a failed call), whether the library can allocate a response object of each
  kind, and the platform's \<^verbatim>\<open>PATH_MAX\<close> and \<^verbatim>\<open>PAGE_SIZE\<close>.
\<close>

record stat =
  st_mode :: "32 word"
  st_size :: "64 word"

record env =
  fs_stat :: "string \<Rightarrow> stat option"
  fs_fopen :: "string \<Rightarrow> FILE option"
  fs_opendir :: "string \<Rightarrow> DIR option"
  buffer_response_ok :: bool
  callback_response_ok :: bool
  PATH_MAX :: nat
  PAGE_SIZE :: nat

text \<open>The POSIX macro: \<^verbatim>\<open>(m & S_IFMT) == S_IFREG\<close>, with the masks 0170000 and 0100000.\<close>

definition S_ISREG :: "32 word \<Rightarrow> bool" where
  "S_ISREG m = (m AND 0xF000 = 0x8000)"

text \<open>
  The library's functions, as \<^verbatim>\<open>fs.c\<close> relies on them. Creating a response yields the
  null pointer (\<open>None\<close>) when the object cannot be allocated, and a response without headers
  otherwise. Adding a header appends it. Queueing hands the response to the HTTP layer with
  its status code; the handler calls it once per request on a fresh connection, where it
  succeeds.
\<close>

definition MHD_create_response_from_buffer :: "env \<Rightarrow> string \<Rightarrow> MHD_Response option" where
  "MHD_create_response_from_buffer e body =
     (if buffer_response_ok e
      then Some \<lparr>resp_headers = [], resp_content = Buffer body\<rparr>
      else None)"

definition MHD_create_response_from_callback ::
  "env \<Rightarrow> 64 word \<Rightarrow> nat \<Rightarrow> reader \<Rightarrow> MHD_Response option" where
  "MHD_create_response_from_callback e size' block rd =
     (if callback_response_ok e
      then Some \<lparr>resp_headers = [], resp_content = Callback size' block rd\<rparr>
      else None)"

definition MHD_add_response_header :: "MHD_Response \<Rightarrow> string \<Rightarrow> string \<Rightarrow> MHD_Response" where
  "MHD_add_response_header resp header value =
     resp\<lparr>resp_headers := resp_headers resp @ [(header, value)]\<rparr>"

definition MHD_queue_response :: "world \<Rightarrow> nat \<Rightarrow> MHD_Response \<Rightarrow> MHD_Result \<times> world" where
  "MHD_queue_response w status resp = (MHD_YES, w\<lparr>queued := queued w @ [(status, resp)]\<rparr>)"

text \<open>
  \<^verbatim>\<open>MHD_destroy_response\<close> gives up the caller's reference. Every call of it in \<^verbatim>\<open>fs.c\<close>
  follows \<^verbatim>\<open>MHD_queue_response\<close>, so the connection still holds the response.
\<close>

definition MHD_destroy_response :: "world \<Rightarrow> MHD_Response \<Rightarrow> world" where
  "MHD_destroy_response w resp = w"

text \<open>\<^verbatim>\<open>websrv_queue_response\<close>: the decorating wrapper around the library's queue call.\<close>

definition websrv_queue_response :: "world \<Rightarrow> nat \<Rightarrow> MHD_Response \<Rightarrow> MHD_Result \<times> world" where
  "websrv_queue_response w status resp =
     MHD_queue_response w status
       (MHD_add_response_header resp MHD_HTTP_HEADER_ACCESS_CONTROL_ALLOW_ORIGIN ''*'')"

section \<open>The close callbacks\<close>

definition fclose :: "FILE \<Rightarrow> world \<Rightarrow> world" where
  "fclose file w = w\<lparr>events := events w @ [Closed (f_id file)]\<rparr>"

definition closedir :: "DIR \<Rightarrow> world \<Rightarrow> world" where
  "closedir d w = w\<lparr>events := events w @ [Closed (d_id d)]\<rparr>"

text \<open>\<^verbatim>\<open>on_file_close(cls)\<close>; \<open>None\<close> is the null pointer.\<close>

definition on_file_close :: "FILE option \<Rightarrow> world \<Rightarrow> world" where
  "on_file_close cls w = (case cls of None \<Rightarrow> w | Some file \<Rightarrow> fclose file w)"

text \<open>
  \<^verbatim>\<open>on_dir_close(cls)\<close>: \<open>cls\<close> is null, or the address of a state machine, which the
  callback reads (\<^verbatim>\<open>sm->dir\<close>). Reading an address at which no object is alive is
  undefined.
\<close>

definition on_dir_close :: "addr option \<Rightarrow> world \<Rightarrow> undefined_behaviour + world" where
  "on_dir_close cls w =
     (case cls of
        None \<Rightarrow> Inr w
      | Some a \<Rightarrow>
          (case locals w a of
             None \<Rightarrow> Inl UseAfterReturn
           | Some sm \<Rightarrow>
               (case sm_dir sm of
                  None \<Rightarrow> Inr w
                | Some d \<Rightarrow> Inr (closedir d w))))"

section \<open>The responders and the router\<close>

text \<open>\<^verbatim>\<open>on_file_request(conn, path)\<close>.\<close>

definition on_file_request :: "env \<Rightarrow> world \<Rightarrow> string \<Rightarrow> MHD_Result \<times> world" where
  "on_file_request e w path =
     (case (case fs_stat e path of
              None \<Rightarrow> None
            | Some st \<Rightarrow>
                (case fs_fopen e path of None \<Rightarrow> None | Some file \<Rightarrow> Some (st, file))) of
        None \<Rightarrow>
          (case MHD_create_response_from_buffer e PAGE_404 of
             Some resp \<Rightarrow>
               (case MHD_queue_response w MHD_HTTP_NOT_FOUND resp of
                  (ret, w') \<Rightarrow> (ret, MHD_destroy_response w' resp))
           | None \<Rightarrow> (MHD_NO, w))
      | Some (st, file) \<Rightarrow>
          (let w1 = w\<lparr>events := events w @ [Opened (f_id file)]\<rparr>
           in case MHD_create_response_from_callback e (st_size st) (32 * PAGE_SIZE e)
                     (FileReader file) of
                Some resp \<Rightarrow>
                  (case MHD_queue_response w1 MHD_HTTP_OK resp of
                     (ret, w') \<Rightarrow> (ret, MHD_destroy_response w' resp))
              | None \<Rightarrow> (MHD_NO, fclose file w1)))"

text \<open>
  \<^verbatim>\<open>on_dir_request(conn, path)\<close>. \<^verbatim>\<open>sprintf\<close> stores \<open>length path + 4\<close> characters and a
  NUL in \<^verbatim>\<open>char url[PATH_MAX]\<close>. The state machine \<open>sm\<close> is an automatic object of this
  function: it is alive at address \<open>sp w\<close> while the function runs, and no longer when the
  function has returned.
\<close>

definition on_dir_request ::
  "env \<Rightarrow> world \<Rightarrow> string \<Rightarrow> undefined_behaviour + (MHD_Result \<times> world)" where
  "on_dir_request e w path =
     (let len = length path in
      if len = 0 \<or> last path \<noteq> CHR ''/'' then
        (if PATH_MAX e < len + 5 then Inl BufferOverflow
         else
           (let url = ''/fs'' @ path @ ''/'' in
            case MHD_create_response_from_buffer e [] of
              None \<Rightarrow> Inr (MHD_NO, w)
            | Some resp \<Rightarrow>
                (let resp' = MHD_add_response_header resp MHD_HTTP_HEADER_LOCATION url
                 in case MHD_queue_response w MHD_HTTP_MOVED_PERMANENTLY resp' of
                      (ret, w') \<Rightarrow> Inr (ret, MHD_destroy_response w' resp'))))
      else
        (case fs_opendir e path of
           None \<Rightarrow>
             (case MHD_create_response_from_buffer e PAGE_404 of
                Some resp \<Rightarrow>
                  (case MHD_queue_response w MHD_HTTP_NOT_FOUND resp of
                     (ret, w') \<Rightarrow> Inr (ret, MHD_destroy_response w' resp))
              | None \<Rightarrow> Inr (MHD_NO, w))
         | Some d \<Rightarrow>
             (let a = sp w;
                  sm = \<lparr>sm_path = path, sm_dir = Some d, sm_state = 0\<rparr>;
                  w1 = w\<lparr>events := events w @ [Opened (d_id d)],
                         locals := (locals w)(a := Some sm), sp := a + 1\<rparr>
              in case MHD_create_response_from_callback e MHD_SIZE_UNKNOWN (32 * PAGE_SIZE e)
                        (DirReader a) of
                   Some resp \<Rightarrow>
                     (case MHD_queue_response w1 MHD_HTTP_OK resp of
                        (ret, w') \<Rightarrow>
                          (let w'' = MHD_destroy_response w' resp
                           in Inr (ret, w''\<lparr>locals := (locals w'')(a := None), sp := a\<rparr>)))
                 | None \<Rightarrow>
                     (let w2 = closedir d w1
                      in Inr (MHD_NO, w2\<lparr>locals := (locals w2)(a := None), sp := a\<rparr>)))))"

text \<open>
  \<^verbatim>\<open>fs_on_request(conn, url)\<close>. \<^verbatim>\<open>url + 3\<close> is a string only if \<open>url\<close> has three
  characters or more; otherwise it points past the terminator.
\<close>

definition fs_on_request ::
  "env \<Rightarrow> world \<Rightarrow> string \<Rightarrow> undefined_behaviour + (MHD_Result \<times> world)" where
  "fs_on_request e w url =
     (if length url < 3 then Inl OutOfBounds
      else
        (let path = drop 3 url in
         if length path = 0 then on_dir_request e w ''/''
         else
           (case fs_stat e path of
              Some st \<Rightarrow>
                if S_ISREG (st_mode st) then Inr (on_file_request e w path)
                else on_dir_request e w path
            | None \<Rightarrow>
                (case MHD_create_response_from_buffer e PAGE_404 of
                   Some resp \<Rightarrow>
                     (case MHD_queue_response w MHD_HTTP_NOT_FOUND resp of
                        (ret, w') \<Rightarrow> Inr (ret, MHD_destroy_response w' resp))
                 | None \<Rightarrow> Inr (MHD_NO, w)))))"

section \<open>The HTTP layer's pull loops\<close>

text \<open>
  The HTTP layer fills a response body by calling the read callback again and again:
  a positive result is the number of bytes it takes from the start of the buffer, 0 asks
  it to call again, and a negative result ends the stream (the end-of-stream sentinel
  regularly, any other as a failure). A result larger than the capacity it offered makes
  it read past the end of its buffer. \<open>Stalled\<close> stands for the loop that never ends
  because the callback never makes progress.
\<close>

datatype stream_result =
  Finished string | Aborted string | Stalled | Undefined undefined_behaviour

text \<open>
  A chunked body of unknown size, pulled from \<^verbatim>\<open>on_dir_read\<close> with a capacity of \<open>max'\<close>
  bytes at every call; \<open>body\<close> is what has been sent so far.
\<close>

function dir_stream :: "nat \<Rightarrow> dir_read_sm \<Rightarrow> string \<Rightarrow> stream_result" where
  "dir_stream max' sm body =
     (if max' < 512 then Stalled
      else
        (case on_dir_read sm (length body) max' of
           Inl u \<Rightarrow> Undefined u
         | Inr (ret, buf, sm') \<Rightarrow>
             if ret = MHD_CONTENT_READER_END_OF_STREAM then Finished body
             else if ret < 0 then Aborted body
             else if int max' < ret then Undefined BufferOverflow
             else dir_stream max' sm' (body @ take (nat ret) buf)))"
  by pat_completeness auto

termination
proof (relation "measure (\<lambda>(max', sm, body).
          nat (3 - sm_state sm) +
          (case sm_dir sm of None \<Rightarrow> 0 | Some d \<Rightarrow> length (d_entries d)))")
  show "wf (measure (\<lambda>(max', sm, body).
          nat (3 - sm_state sm) +
          (case sm_dir sm of None \<Rightarrow> 0 | Some d \<Rightarrow> length (d_entries d))))"
    by simp
next
  fix max' :: nat and sm :: dir_read_sm and body :: string
    and x2 :: "int \<times> string \<times> dir_read_sm" and ret :: int and y :: "string \<times> dir_read_sm"
    and buf :: string and sm' :: dir_read_sm
  assume big: "\<not> max' < 512"
    and rd: "on_dir_read sm (length body) max' = Inr x2"
    and x2: "(ret, y) = x2" "(buf, sm') = y"
    and more: "ret \<noteq> MHD_CONTENT_READER_END_OF_STREAM" "\<not> ret < 0"
  from rd x2 have rd': "on_dir_read sm (length body) max' = Inr (ret, buf, sm')"
    by simp
  have "nat (3 - sm_state sm') +
          (case sm_dir sm' of None \<Rightarrow> 0 | Some d \<Rightarrow> length (d_entries d))
        < nat (3 - sm_state sm) +
          (case sm_dir sm of None \<Rightarrow> 0 | Some d \<Rightarrow> length (d_entries d))"
    using rd' big more
    by (auto simp: on_dir_read_def readdir_def snprintf_def
          split: if_splits option.splits list.splits prod.splits)
  then show "((max', sm', body @ take (nat ret) buf), (max', sm, body))
        \<in> measure (\<lambda>(max', sm, body).
          nat (3 - sm_state sm) +
          (case sm_dir sm of None \<Rightarrow> 0 | Some d \<Rightarrow> length (d_entries d)))"
    by simp
qed

text \<open>
  A body of declared size \<open>size'\<close>, pulled from \<^verbatim>\<open>on_file_read\<close> in blocks of at most
  \<open>block\<close> bytes until the declared size has been sent.
\<close>

function file_stream :: "nat \<Rightarrow> nat \<Rightarrow> FILE \<Rightarrow> string \<Rightarrow> stream_result" where
  "file_stream block size' file body =
     (if size' \<le> length body then Finished body
      else
        (case on_file_read file (length body) (min block (size' - length body)) of
           (ret, buf, file') \<Rightarrow>
             if ret = MHD_CONTENT_READER_END_OF_STREAM then Finished body
             else if ret < 0 then Aborted body
             else if ret = 0 then Stalled
             else if int (min block (size' - length body)) < ret then Undefined BufferOverflow
             else file_stream block size' file' (body @ take (nat ret) buf)))"
  by pat_completeness auto

termination
proof (relation "measure (\<lambda>(block, size', file, body). size' - length body)")
  show "wf (measure (\<lambda>(block, size', file, body). size' - length body))"
    by simp
next
  fix block size' :: nat and f :: FILE and body :: string
    and x :: "int \<times> string \<times> FILE" and ret :: int and y :: "string \<times> FILE"
    and buf :: string and f' :: FILE
  assume more: "\<not> size' \<le> length body"
    and x: "(ret, y) = on_file_read f (length body) (min block (size' - length body))"
      "(buf, f') = y"
    and pos: "\<not> ret < 0" "ret \<noteq> 0"
  from x have "on_file_read f (length body) (min block (size' - length body))
      = (ret, buf, f')"
    by simp
  then have "length buf = nat ret" "0 < ret"
    using pos
    by (auto simp: on_file_read_def MHD_CONTENT_READER_END_WITH_ERROR_def
          MHD_CONTENT_READER_END_OF_STREAM_def split: if_splits prod.splits)
  then show "((block, size', f', body @ take (nat ret) buf), (block, size', f, body))
        \<in> measure (\<lambda>(block, size', file, body). size' - length body)"
    using more by simp
qed

text \<open>
  When a response ends, however it ends (sent completely, failed, or aborted), the HTTP
  layer calls the close callback of the response once with the closure it was created
  with. A buffer response has no callback.
\<close>

definition response_done :: "MHD_Response \<Rightarrow> world \<Rightarrow> undefined_behaviour + world" where
  "response_done resp w =
     (case resp_content resp of
        Buffer body \<Rightarrow> Inr w
      | Callback size' block rd \<Rightarrow>
          (case rd of
             FileReader file \<Rightarrow> Inr (on_file_close (Some file) w)
           | DirReader a \<Rightarrow> on_dir_close (Some a) w))"

section \<open>The listing as the specification words it\<close>

text \<open>
  The specification's directory listing body for a path and the entries of the directory:
  its header, one list item for each entry except those named \<^verbatim>\<open>.\<close> and \<^verbatim>\<open>..\<close>, and its
  footer. This definition follows the specification's words, not the source.
\<close>

definition spec_listing_body :: "string \<Rightarrow> string list \<Rightarrow> string" where
  "spec_listing_body path names =
     ''<!DOCTYPE html><html><head><title>Index of '' @ path @
     ''</title></head><body><h1>Index of '' @ path @ ''</h1><ul>'' @
     concat (map (\<lambda>name. ''<li><a href='' @ [CHR 0x22] @ name @ [CHR 0x22] @ ''>'' @
                           name @ ''</a></li>'')
               (filter (\<lambda>name. name \<noteq> ''.'' \<and> name \<noteq> ''..'') names)) @
     ''</ul></body></html>''"

section \<open>Successive calls of the directory reader\<close>

text \<open>
  The state machine after a sequence of calls of the read callback, each with its own
  offset and capacity.
\<close>

fun read_calls ::
  "dir_read_sm \<Rightarrow> (nat \<times> nat) list \<Rightarrow> undefined_behaviour + dir_read_sm" where
  "read_calls sm [] = Inr sm"
| "read_calls sm ((pos, max') # calls) =
     (case on_dir_read sm pos max' of
        Inl u \<Rightarrow> Inl u
      | Inr (ret, buf, sm') \<Rightarrow> read_calls sm' calls)"

text \<open>A stream on which no seek and no read fails.\<close>

definition healthy :: "FILE \<Rightarrow> bool" where
  "healthy file = ((\<forall>pos. \<not> f_seek_fails file pos) \<and> (\<forall>pos. f_read_fault file pos = None))"

section \<open>A small file system to run the code on\<close>

text \<open>
  The directory \<^verbatim>\<open>/tmp/x/\<close> holds \<^verbatim>\<open>a.txt\<close> (five bytes), \<^verbatim>\<open>b.txt\<close>, the subdirectory
  \<^verbatim>\<open>sub\<close> and the hidden entry \<^verbatim>\<open>.git\<close>. Modes are \<^verbatim>\<open>0100644\<close> for the regular file
  and \<^verbatim>\<open>040755\<close> for directories.
\<close>

definition demo_file :: FILE where
  "demo_file =
     \<lparr>f_id = 3, f_bytes = ''hello'', f_seek_fails = (\<lambda>pos. False),
      f_read_fault = (\<lambda>pos. None), f_error = False\<rparr>"

definition demo_dir :: DIR where
  "demo_dir = \<lparr>d_id = 4, d_entries = [''.'', ''..'', ''.git'', ''a.txt'', ''b.txt'', ''sub'']\<rparr>"

definition demo_stat :: "string \<Rightarrow> stat option" where
  "demo_stat path =
     (if path = ''/tmp/x/a.txt'' then Some \<lparr>st_mode = 0x81A4, st_size = 5\<rparr>
      else if path = ''/tmp/x'' then Some \<lparr>st_mode = 0x41ED, st_size = 512\<rparr>
      else if path = ''/tmp/x/'' then Some \<lparr>st_mode = 0x41ED, st_size = 512\<rparr>
      else None)"

definition demo_fopen :: "string \<Rightarrow> FILE option" where
  "demo_fopen path = (if path = ''/tmp/x/a.txt'' then Some demo_file else None)"

definition demo_opendir :: "string \<Rightarrow> DIR option" where
  "demo_opendir path = (if path = ''/tmp/x/'' then Some demo_dir else None)"

definition demo_env :: env where
  "demo_env =
     \<lparr>fs_stat = demo_stat, fs_fopen = demo_fopen, fs_opendir = demo_opendir,
      buffer_response_ok = True, callback_response_ok = True,
      PATH_MAX = 1024, PAGE_SIZE = 4096\<rparr>"

text \<open>The same file system when the library cannot allocate a response object.\<close>

definition no_memory_env :: env where
  "no_memory_env =
     \<lparr>fs_stat = demo_stat, fs_fopen = demo_fopen, fs_opendir = demo_opendir,
      buffer_response_ok = False, callback_response_ok = False,
      PATH_MAX = 1024, PAGE_SIZE = 4096\<rparr>"

definition world0 :: world where
  "world0 = \<lparr>queued = [], events = [], locals = (\<lambda>a. None), sp = 0\<rparr>"

text \<open>The state machine \<^verbatim>\<open>on_dir_request\<close> sets up for \<^verbatim>\<open>/tmp/x/\<close>, and the same in its last phase.\<close>

definition demo_sm :: dir_read_sm where
  "demo_sm = \<lparr>sm_path = ''/tmp/x/'', sm_dir = Some demo_dir, sm_state = 0\<rparr>"

definition done_sm :: dir_read_sm where
  "done_sm = \<lparr>sm_path = ''/tmp/x/'', sm_dir = Some \<lparr>d_id = 4, d_entries = []\<rparr>, sm_state = 3\<rparr>"

text \<open>A stream whose device fails two bytes into a read at offset 0, and at once elsewhere.\<close>

definition faulty_file :: FILE where
  "faulty_file =
     \<lparr>f_id = 3, f_bytes = ''hello'', f_seek_fails = (\<lambda>pos. 100 \<le> pos),
      f_read_fault = (\<lambda>pos. if pos = 0 then Some 2 else Some 0), f_error = False\<rparr>"

text \<open>
  A state machine in its second phase whose directory holds one entry with a name of 255
  characters, the longest name a directory entry can have.
\<close>

definition long_name_sm :: dir_read_sm where
  "long_name_sm =
     \<lparr>sm_path = ''/tmp/x/'',
      sm_dir = Some \<lparr>d_id = 4, d_entries = [replicate 255 CHR ''a'']\<rparr>,
      sm_state = 1\<rparr>"

section \<open>The read callback with too small a buffer\<close>

text \<open>
  C6. A call of the directory read callback that offers fewer than 512 bytes returns 0 and
  leaves the state machine as it was (phase, directory handle and path), whatever the
  phase is, \<^verbatim>\<open>Done\<close> included; it stores nothing in the buffer.
\<close>

theorem on_dir_read_small_buffer:
  "max' < 512 \<Longrightarrow> on_dir_read sm pos max' = Inr (0, [], sm)"
  by (simp add: on_dir_read_def)

theorem on_dir_read_small_buffer_witness:
  "(511::nat) < 512 \<and> on_dir_read done_sm 7 511 = Inr (0, [], done_sm)
   \<and> on_dir_read demo_sm 0 0 = Inr (0, [], demo_sm)"
  using on_dir_read_small_buffer [of 511 done_sm 7] on_dir_read_small_buffer [of 0 demo_sm 0]
  by simp

section \<open>The phases of the directory reader\<close>

lemma on_dir_read_step:
  "on_dir_read sm pos max' = Inr (ret, buf, sm') \<Longrightarrow>
     sm_state sm \<le> sm_state sm' \<and> sm_state sm' \<le> sm_state sm + 1"
  by (auto simp: on_dir_read_def readdir_def snprintf_def
        split: if_splits option.splits list.splits prod.splits)

lemma on_dir_read_range:
  "on_dir_read sm pos max' = Inr (ret, buf, sm') \<Longrightarrow>
     sm_state sm \<in> {0, 1, 2, 3} \<Longrightarrow> sm_state sm' \<in> {0, 1, 2, 3}"
  by (auto simp: on_dir_read_def readdir_def snprintf_def
        split: if_splits option.splits list.splits prod.splits)

lemma read_calls_range:
  "read_calls sm calls = Inr sm' \<Longrightarrow> sm_state sm \<in> {0, 1, 2, 3} \<Longrightarrow>
     sm_state sm' \<in> {0, 1, 2, 3}"
proof (induction calls arbitrary: sm)
  case Nil
  then show ?case by simp
next
  case (Cons c calls)
  obtain pos max' where c: "c = (pos, max')"
    by (cases c)
  from Cons.prems(1) c obtain ret buf sm1 where
    step: "on_dir_read sm pos max' = Inr (ret, buf, sm1)"
    and rest: "read_calls sm1 calls = Inr sm'"
    by (auto split: sum.splits)
  from on_dir_read_range [OF step Cons.prems(2)] have "sm_state sm1 \<in> {0, 1, 2, 3}" .
  from Cons.IH [OF rest this] show ?case .
qed

lemma on_dir_read_done:
  "sm_state sm = 3 \<Longrightarrow> 512 \<le> max' \<Longrightarrow>
     on_dir_read sm pos max' = Inr (MHD_CONTENT_READER_END_OF_STREAM, [], sm)"
  by (simp add: on_dir_read_def)

lemma read_calls_done:
  "sm_state sm = 3 \<Longrightarrow> read_calls sm calls = Inr sm"
proof (induction calls)
  case Nil
  then show ?case by simp
next
  case (Cons c calls)
  obtain pos max' where c: "c = (pos, max')"
    by (cases c)
  show ?case
  proof (cases "max' < 512")
    case True
    then show ?thesis using Cons c by (simp add: on_dir_read_def)
  next
    case False
    then show ?thesis using Cons c by (simp add: on_dir_read_def)
  qed
qed

text \<open>
  C5, as the code has it. Started in phase 0 (\<^verbatim>\<open>Header\<close>), the phase field of the
  directory responder only ever takes the values 0, 1, 2 and 3 (\<^verbatim>\<open>Header\<close>,
  \<^verbatim>\<open>Entries\<close>, \<^verbatim>\<open>Footer\<close>, \<^verbatim>\<open>Done\<close>), whatever the sequence of calls of the read
  callback; no call decreases it and a call advances it by at most one; once it is 3 it
  stays 3, and every later call that offers at least 512 bytes signals end-of-stream.
  A call that offers fewer than 512 bytes returns 0 in every phase, \<^verbatim>\<open>Done\<close> included.
\<close>

theorem dir_phase_machine:
  "(sm_state sm0 = 0 \<and> read_calls sm0 calls = Inr sm1 \<longrightarrow> sm_state sm1 \<in> {0, 1, 2, 3})
   \<and> (on_dir_read sm pos max' = Inr (ret, buf, sm') \<longrightarrow>
        sm_state sm \<le> sm_state sm' \<and> sm_state sm' \<le> sm_state sm + 1)
   \<and> (sm_state sm3 = 3 \<longrightarrow> read_calls sm3 calls3 = Inr sm3)
   \<and> (sm_state sm3 = 3 \<and> 512 \<le> cap \<longrightarrow>
        on_dir_read sm3 pos3 cap = Inr (MHD_CONTENT_READER_END_OF_STREAM, [], sm3))"
  using read_calls_range [of sm0 calls sm1] on_dir_read_step [of sm pos max' ret buf sm']
    read_calls_done [of sm3 calls3] on_dir_read_done [of sm3 cap pos3]
  by simp

theorem dir_phase_machine_witness:
  "sm_state demo_sm = 0
   \<and> read_calls demo_sm
        [(0, 512), (118, 100), (118, 512), (118, 512), (118, 512), (118, 512), (152, 512),
         (186, 512), (216, 512), (216, 512)] = Inr done_sm
   \<and> sm_state done_sm \<in> {0, 1, 2, 3}
   \<and> on_dir_read (done_sm\<lparr>sm_state := 1\<rparr>) 216 512 = Inr (0, [], done_sm\<lparr>sm_state := 2\<rparr>)
   \<and> sm_state (done_sm\<lparr>sm_state := 1\<rparr>) \<le> sm_state (done_sm\<lparr>sm_state := 2\<rparr>)
   \<and> sm_state (done_sm\<lparr>sm_state := 2\<rparr>) \<le> sm_state (done_sm\<lparr>sm_state := 1\<rparr>) + 1
   \<and> sm_state done_sm = 3
   \<and> read_calls done_sm [(235, 512), (235, 100)] = Inr done_sm
   \<and> (512::nat) \<le> 4096
   \<and> on_dir_read done_sm 235 4096 = Inr (MHD_CONTENT_READER_END_OF_STREAM, [], done_sm)"
proof -
  have run: "read_calls demo_sm
     [(0, 512), (118, 100), (118, 512), (118, 512), (118, 512), (118, 512), (152, 512),
      (186, 512), (216, 512), (216, 512)] = Inr done_sm"
    by (simp add: demo_sm_def done_sm_def demo_dir_def on_dir_read_def readdir_def
          snprintf_def starts_with_dot_def)
  have start: "sm_state demo_sm = 0"
    by (simp add: demo_sm_def)
  have step: "on_dir_read (done_sm\<lparr>sm_state := 1\<rparr>) 216 512
      = Inr (0, [], done_sm\<lparr>sm_state := 2\<rparr>)"
    by (simp add: done_sm_def on_dir_read_def readdir_def)
  have fin: "sm_state done_sm = 3"
    by (simp add: done_sm_def)
  note inst = dir_phase_machine
    [of demo_sm "[(0, 512), (118, 100), (118, 512), (118, 512), (118, 512), (118, 512),
        (152, 512), (186, 512), (216, 512), (216, 512)]" done_sm
        "done_sm\<lparr>sm_state := 1\<rparr>" 216 512 0 "[]" "done_sm\<lparr>sm_state := 2\<rparr>"
        done_sm "[(235, 512), (235, 100)]" 4096 235]
  from inst run start step fin show ?thesis
    by simp
qed

text \<open>
  In phase 3 a call that offers 100 bytes returns 0, which is not the end-of-stream
  sentinel.
\<close>

theorem done_small_buffer_counterexample:
  "sm_state done_sm = 3 \<and> on_dir_read done_sm 235 100 = Inr (0, [], done_sm)
   \<and> (0::int) \<noteq> MHD_CONTENT_READER_END_OF_STREAM"
  by (simp add: done_sm_def on_dir_read_def MHD_CONTENT_READER_END_OF_STREAM_def)

section \<open>The results of the file reader\<close>

lemma fread_length: "fread file pos max' = (buf, file') \<Longrightarrow> length buf \<le> max'"
  by (auto simp: fread_def Let_def split: option.splits)

text \<open>
  C7, as the code has it. Every call of the file read callback falls in one of four
  cases. If the seek fails, it returns the fatal-stream-error sentinel. If the read
  delivers no byte and leaves the stream's error indicator set, it returns the
  fatal-stream-error sentinel. If the read delivers no byte and the error indicator is not
  set, it returns the end-of-stream sentinel. Otherwise the read has delivered at least one
  byte, and the callback returns the positive number of bytes read into the buffer, which
  is at most the requested chunk size \<open>max'\<close>, whether or not the read hit an error after
  these bytes: the code looks at the error indicator only when no byte was read.
\<close>

theorem on_file_read_cases:
  "(fseek file pos \<longrightarrow>
      on_file_read file pos max' = (MHD_CONTENT_READER_END_WITH_ERROR, [], file))
   \<and> (\<not> fseek file pos \<and> fread file pos max' = ([], file') \<and> ferror file' \<longrightarrow>
      on_file_read file pos max' = (MHD_CONTENT_READER_END_WITH_ERROR, [], file'))
   \<and> (\<not> fseek file pos \<and> fread file pos max' = ([], file') \<and> \<not> ferror file' \<longrightarrow>
      on_file_read file pos max' = (MHD_CONTENT_READER_END_OF_STREAM, [], file'))
   \<and> (\<not> fseek file pos \<and> fread file pos max' = (buf, file') \<and> buf \<noteq> [] \<longrightarrow>
      on_file_read file pos max' = (int (length buf), buf, file')
      \<and> 0 < int (length buf) \<and> length buf \<le> max')"
  using fread_length [of "file" pos max' buf file']
  by (simp add: on_file_read_def)

theorem on_file_read_cases_witness:
  "fseek faulty_file 100
   \<and> on_file_read faulty_file 100 4 = (MHD_CONTENT_READER_END_WITH_ERROR, [], faulty_file)
   \<and> \<not> fseek faulty_file 3
   \<and> fread faulty_file 3 4 = ([], faulty_file\<lparr>f_error := True\<rparr>)
   \<and> ferror (faulty_file\<lparr>f_error := True\<rparr>)
   \<and> on_file_read faulty_file 3 4
       = (MHD_CONTENT_READER_END_WITH_ERROR, [], faulty_file\<lparr>f_error := True\<rparr>)
   \<and> \<not> fseek demo_file 5
   \<and> fread demo_file 5 4 = ([], demo_file)
   \<and> \<not> ferror demo_file
   \<and> on_file_read demo_file 5 4 = (MHD_CONTENT_READER_END_OF_STREAM, [], demo_file)
   \<and> \<not> fseek demo_file 0
   \<and> fread demo_file 0 4 = (''hell'', demo_file)
   \<and> on_file_read demo_file 0 4 = (4, ''hell'', demo_file)"
proof -
  have a: "fseek faulty_file 100" "\<not> fseek faulty_file 3"
    "fread faulty_file 3 4 = ([], faulty_file\<lparr>f_error := True\<rparr>)"
    "ferror (faulty_file\<lparr>f_error := True\<rparr>)"
    by (simp_all add: fseek_def fread_def ferror_def faulty_file_def)
  have b: "\<not> fseek demo_file 5" "fread demo_file 5 4 = ([], demo_file)" "\<not> ferror demo_file"
    "\<not> fseek demo_file 0" "fread demo_file 0 4 = (''hell'', demo_file)"
    by (simp_all add: fseek_def fread_def ferror_def demo_file_def)
  from a b
    on_file_read_cases [of faulty_file 100 4 faulty_file "[]"]
    on_file_read_cases [of faulty_file 3 4 "faulty_file\<lparr>f_error := True\<rparr>" "[]"]
    on_file_read_cases [of demo_file 5 4 demo_file "[]"]
    on_file_read_cases [of demo_file 0 4 demo_file "''hell''"]
  show ?thesis
    by simp
qed

text \<open>
  A read at offset 0 of up to four bytes whose device fails after two bytes: the read
  error sets the error indicator, and the callback returns 2, not the fatal-stream-error
  sentinel.
\<close>

theorem partial_read_error_counterexample:
  "\<not> fseek faulty_file 0
   \<and> fread faulty_file 0 4 = (''he'', faulty_file\<lparr>f_error := True\<rparr>)
   \<and> ferror (faulty_file\<lparr>f_error := True\<rparr>)
   \<and> on_file_read faulty_file 0 4 = (2, ''he'', faulty_file\<lparr>f_error := True\<rparr>)
   \<and> (2::int) \<noteq> MHD_CONTENT_READER_END_WITH_ERROR"
  by (simp add: on_file_read_def fseek_def fread_def ferror_def faulty_file_def
        MHD_CONTENT_READER_END_WITH_ERROR_def)

section \<open>The byte count of the directory reader\<close>

lemma long_name_visible: "\<not> starts_with_dot (replicate 255 CHR ''a'')"
proof -
  have "CHR ''a'' # replicate 254 CHR ''a'' = replicate (Suc 254) CHR ''a''"
    by (simp only: replicate_Suc)
  then have "replicate 255 CHR ''a'' = CHR ''a'' # replicate 254 CHR ''a''"
    by simp
  then show ?thesis
    by (simp add: starts_with_dot_def)
qed

text \<open>
  C10 asks that a call of the directory read callback with a capacity of at least 512
  bytes never returns more than the capacity. The code returns what \<^verbatim>\<open>snprintf\<close> returns,
  the length of the whole expansion: offered 512 bytes in the second phase, with a next
  entry whose name has 255 characters, the callback stores 512 bytes and returns 534.
\<close>

theorem on_dir_read_long_name:
  "\<exists>buf sm'. on_dir_read long_name_sm 0 512 = Inr (534, buf, sm') \<and> length buf = 512"
  using long_name_visible
  by (simp add: long_name_sm_def on_dir_read_def readdir_def snprintf_def entry_format_def)

section \<open>Facts shared by the proofs about requests\<close>

declare dir_stream.simps [simp del] file_stream.simps [simp del]

lemmas demo_defs = demo_env_def demo_stat_def demo_fopen_def demo_opendir_def world0_def
  no_memory_env_def

lemmas mhd_defs = MHD_create_response_from_buffer_def MHD_create_response_from_callback_def
  MHD_add_response_header_def MHD_queue_response_def MHD_destroy_response_def
  MHD_HTTP_OK_def MHD_HTTP_MOVED_PERMANENTLY_def MHD_HTTP_NOT_FOUND_def
  MHD_HTTP_HEADER_LOCATION_def

lemma PAGE_404_text:
  "PAGE_404 = ''<html><head><title>File not found</title></head><body>File not found</body></html>''"
  by (simp add: PAGE_404_def)

section \<open>The router\<close>

text \<open>
  C3, as the code has it. For every URL of at least three characters the router strips
  the first three characters. If the remaining path is empty, it serves the root directory
  \<^verbatim>\<open>/\<close> through the directory responder. If \<^verbatim>\<open>stat\<close> on the remaining path fails, for
  whatever reason, it queues a 404 response whose body is the fixed not-found page,
  provided the library can construct the response object; if it cannot, the router queues
  nothing and returns \<^verbatim>\<open>MHD_NO\<close>. If \<^verbatim>\<open>stat\<close> reports a regular file, it delegates to the
  file responder, and in every other case to the directory responder.
\<close>

theorem fs_on_request_routes:
  "3 \<le> length url \<Longrightarrow>
   (drop 3 url = [] \<longrightarrow> fs_on_request e w url = on_dir_request e w ''/'')
   \<and> (drop 3 url \<noteq> [] \<and> fs_stat e (drop 3 url) = None \<and> buffer_response_ok e \<longrightarrow>
        fs_on_request e w url = Inr (MHD_YES, w\<lparr>queued := queued w @
          [(404, \<lparr>resp_headers = [], resp_content = Buffer
             ''<html><head><title>File not found</title></head><body>File not found</body></html>''\<rparr>)]\<rparr>))
   \<and> (drop 3 url \<noteq> [] \<and> fs_stat e (drop 3 url) = None \<and> \<not> buffer_response_ok e \<longrightarrow>
        fs_on_request e w url = Inr (MHD_NO, w))
   \<and> (drop 3 url \<noteq> [] \<and> fs_stat e (drop 3 url) = Some st \<and> S_ISREG (st_mode st) \<longrightarrow>
        fs_on_request e w url = Inr (on_file_request e w (drop 3 url)))
   \<and> (drop 3 url \<noteq> [] \<and> fs_stat e (drop 3 url) = Some st \<and> \<not> S_ISREG (st_mode st) \<longrightarrow>
        fs_on_request e w url = on_dir_request e w (drop 3 url))"
  by (simp add: fs_on_request_def mhd_defs PAGE_404_text Let_def)

theorem fs_on_request_routes_witness:
  "(3::nat) \<le> length ''/fs''
   \<and> fs_on_request demo_env world0 ''/fs'' = on_dir_request demo_env world0 ''/''
   \<and> 3 \<le> length ''/fs/nope'' \<and> fs_stat demo_env ''/nope'' = None \<and> buffer_response_ok demo_env
   \<and> fs_on_request demo_env world0 ''/fs/nope'' = Inr (MHD_YES, world0\<lparr>queued :=
        [(404, \<lparr>resp_headers = [], resp_content = Buffer
           ''<html><head><title>File not found</title></head><body>File not found</body></html>''\<rparr>)]\<rparr>)
   \<and> fs_stat no_memory_env ''/nope'' = None \<and> \<not> buffer_response_ok no_memory_env
   \<and> fs_on_request no_memory_env world0 ''/fs/nope'' = Inr (MHD_NO, world0)
   \<and> 3 \<le> length ''/fs/tmp/x/a.txt''
   \<and> fs_stat demo_env ''/tmp/x/a.txt'' = Some \<lparr>st_mode = 0x81A4, st_size = 5\<rparr>
   \<and> S_ISREG 0x81A4
   \<and> fs_on_request demo_env world0 ''/fs/tmp/x/a.txt''
       = Inr (on_file_request demo_env world0 ''/tmp/x/a.txt'')
   \<and> 3 \<le> length ''/fs/tmp/x''
   \<and> fs_stat demo_env ''/tmp/x'' = Some \<lparr>st_mode = 0x41ED, st_size = 512\<rparr>
   \<and> \<not> S_ISREG 0x41ED
   \<and> fs_on_request demo_env world0 ''/fs/tmp/x'' = on_dir_request demo_env world0 ''/tmp/x''"
proof -
  have stats: "fs_stat demo_env ''/nope'' = None" "fs_stat no_memory_env ''/nope'' = None"
    "fs_stat demo_env ''/tmp/x/a.txt'' = Some \<lparr>st_mode = 0x81A4, st_size = 5\<rparr>"
    "fs_stat demo_env ''/tmp/x'' = Some \<lparr>st_mode = 0x41ED, st_size = 512\<rparr>"
    "buffer_response_ok demo_env" "\<not> buffer_response_ok no_memory_env"
    by (simp_all add: demo_defs)
  have modes: "S_ISREG 0x81A4" "\<not> S_ISREG 0x41ED"
    by (simp_all add: S_ISREG_def)
  from stats modes
    fs_on_request_routes [of "''/fs''" demo_env world0]
    fs_on_request_routes [of "''/fs/nope''" demo_env world0]
    fs_on_request_routes [of "''/fs/nope''" no_memory_env world0]
    fs_on_request_routes [of "''/fs/tmp/x/a.txt''" demo_env world0
      "\<lparr>st_mode = 0x81A4, st_size = 5\<rparr>"]
    fs_on_request_routes [of "''/fs/tmp/x''" demo_env world0
      "\<lparr>st_mode = 0x41ED, st_size = 512\<rparr>"]
  show ?thesis
    by (simp add: world0_def)
qed

text \<open>
  Without memory for the response object, a request for a path that does not exist queues
  no response at all.
\<close>

theorem not_found_without_memory_counterexample:
  "fs_stat no_memory_env ''/does/not/exist'' = None
   \<and> fs_on_request no_memory_env world0 ''/fs/does/not/exist'' = Inr (MHD_NO, world0)
   \<and> queued world0 = []"
  by (simp add: fs_on_request_def demo_defs mhd_defs)

text \<open>A URL of fewer than three characters has no remaining path to route.\<close>

lemma fs_on_request_short_url: "fs_on_request e w ''/f'' = Inl OutOfBounds"
  by (simp add: fs_on_request_def)

section \<open>The redirect of the directory responder\<close>

text \<open>
  C4, as the code has it. For every directory request whose path does not end with a
  path separator and is short enough for the redirect target, \<open>length path + 5 \<le> PATH_MAX\<close>,
  the responder queues a 301 response with an empty body whose only header is
  \<^verbatim>\<open>Location\<close>, with exactly the value \<^verbatim>\<open>/fs\<close>, the path and one \<^verbatim>\<open>/\<close>, provided the
  library can construct the response object; if it cannot, the responder queues nothing
  and returns \<^verbatim>\<open>MHD_NO\<close>. In both cases no directory handle is opened on this branch.
\<close>

theorem on_dir_request_redirect:
  "path = [] \<or> last path \<noteq> CHR ''/'' \<Longrightarrow> length path + 5 \<le> PATH_MAX e \<Longrightarrow>
   (buffer_response_ok e \<longrightarrow>
      on_dir_request e w path = Inr (MHD_YES, w\<lparr>queued := queued w @
        [(301, \<lparr>resp_headers = [(''Location'', ''/fs'' @ path @ ''/'')],
                 resp_content = Buffer []\<rparr>)]\<rparr>))
   \<and> (\<not> buffer_response_ok e \<longrightarrow> on_dir_request e w path = Inr (MHD_NO, w))
   \<and> (\<forall>ret w'. on_dir_request e w path = Inr (ret, w') \<longrightarrow> events w' = events w)"
  by (auto simp: on_dir_request_def mhd_defs Let_def)

theorem on_dir_request_redirect_witness:
  "last ''/tmp/x'' \<noteq> CHR ''/'' \<and> length ''/tmp/x'' + 5 \<le> PATH_MAX demo_env
   \<and> buffer_response_ok demo_env
   \<and> on_dir_request demo_env world0 ''/tmp/x'' = Inr (MHD_YES, world0\<lparr>queued :=
        [(301, \<lparr>resp_headers = [(''Location'', ''/fs/tmp/x/'')],
                 resp_content = Buffer []\<rparr>)]\<rparr>)
   \<and> events (world0\<lparr>queued :=
        [(301, \<lparr>resp_headers = [(''Location'', ''/fs/tmp/x/'')],
                 resp_content = Buffer []\<rparr>)]\<rparr>) = events world0
   \<and> length ''/tmp/x'' + 5 \<le> PATH_MAX no_memory_env
   \<and> \<not> buffer_response_ok no_memory_env
   \<and> on_dir_request no_memory_env world0 ''/tmp/x'' = Inr (MHD_NO, world0)"
proof -
  have pre: "last ''/tmp/x'' \<noteq> CHR ''/''" "length ''/tmp/x'' + 5 \<le> PATH_MAX demo_env"
    "length ''/tmp/x'' + 5 \<le> PATH_MAX no_memory_env"
    "buffer_response_ok demo_env" "\<not> buffer_response_ok no_memory_env"
    by (simp_all add: demo_defs)
  from pre
    on_dir_request_redirect [of "''/tmp/x''" demo_env world0]
    on_dir_request_redirect [of "''/tmp/x''" no_memory_env world0]
  show ?thesis
    by (simp add: world0_def)
qed

text \<open>
  Without memory for the response object, the request for \<^verbatim>\<open>/tmp/x\<close> queues no redirect.
\<close>

theorem redirect_without_memory_counterexample:
  "last ''/tmp/x'' \<noteq> CHR ''/''
   \<and> on_dir_request no_memory_env world0 ''/tmp/x'' = Inr (MHD_NO, world0)
   \<and> queued world0 = []"
  by (simp add: on_dir_request_def demo_defs mhd_defs)

text \<open>
  With \<^verbatim>\<open>PATH_MAX\<close> at 1024, the redirect target of a path of 1020 characters does not fit
  the buffer \<^verbatim>\<open>url\<close>.
\<close>

lemma on_dir_request_long_path:
  "on_dir_request demo_env world0 (replicate 1020 CHR ''a'') = Inl BufferOverflow"
  by (simp add: on_dir_request_def demo_defs)

section \<open>The file responder\<close>

lemma on_file_read_healthy:
  assumes "healthy f" and "0 < m" and "pos + m \<le> length (f_bytes f)"
  shows "on_file_read f pos m = (int m, take m (drop pos (f_bytes f)), f)"
  using assms
  by (simp add: on_file_read_def fseek_def fread_def healthy_def)

lemma file_stream_healthy:
  assumes h: "healthy f" and b: "0 < block"
  shows "length body \<le> length (f_bytes f) \<Longrightarrow> body = take (length body) (f_bytes f) \<Longrightarrow>
    file_stream block (length (f_bytes f)) f body = Finished (f_bytes f)"
proof (induction "length (f_bytes f) - length body" arbitrary: body rule: less_induct)
  case less
  show ?case
  proof (cases "length (f_bytes f) \<le> length body")
    case True
    with less.prems have "body = f_bytes f"
      by simp
    then show ?thesis
      by (subst file_stream.simps) simp
  next
    case False
    define m where "m = min block (length (f_bytes f) - length body)"
    define body' where "body' = body @ take m (drop (length body) (f_bytes f))"
    have m: "0 < m" "length body + m \<le> length (f_bytes f)"
      using False b by (simp_all add: m_def)
    have rd: "on_file_read f (length body) m
        = (int m, take m (drop (length body) (f_bytes f)), f)"
      using on_file_read_healthy [OF h m] .
    have len: "length body' = length body + m"
      using m by (simp add: body'_def)
    have pre: "body' = take (length body') (f_bytes f)"
      using less.prems(2) len by (simp add: body'_def take_add) 
    have step: "file_stream block (length (f_bytes f)) f body
        = file_stream block (length (f_bytes f)) f body'"
      using False rd m
      by (subst file_stream.simps)
        (simp add: m_def [symmetric] body'_def MHD_CONTENT_READER_END_OF_STREAM_def)
    have "file_stream block (length (f_bytes f)) f body' = Finished (f_bytes f)"
      using less.hyps [of body'] len m pre by simp
    with step show ?thesis
      by simp
  qed
qed

text \<open>
  C8, as the code has it. For every file that \<^verbatim>\<open>stat\<close> finds and \<^verbatim>\<open>fopen\<close> opens, the
  file responder queues a 200 response whose declared content length is the \<^verbatim>\<open>st_size\<close>
  of that \<^verbatim>\<open>stat\<close> call, provided the library can construct the response object; if it
  cannot, the responder closes the file again, queues nothing and returns \<^verbatim>\<open>MHD_NO\<close>.
  When the file holds as many bytes as declared and no seek or read on it fails, the body
  stream pulled from the read callback ends after exactly these bytes. If \<^verbatim>\<open>stat\<close> or
  \<^verbatim>\<open>fopen\<close> fails, the responder queues a 404 response with the fixed not-found page
  instead, provided the response object can be constructed, and queues nothing otherwise;
  no file is left open in either case, since none was opened.
\<close>

theorem on_file_request_serves_file:
  "(fs_stat e path = Some st \<and> fs_fopen e path = Some file \<and> callback_response_ok e \<longrightarrow>
      on_file_request e w path = (MHD_YES, w\<lparr>queued := queued w @
        [(200, \<lparr>resp_headers = [],
                 resp_content = Callback (st_size st) (32 * PAGE_SIZE e) (FileReader file)\<rparr>)],
        events := events w @ [Opened (f_id file)]\<rparr>))
   \<and> (healthy file \<and> length (f_bytes file) = unat (st_size st) \<and> 0 < PAGE_SIZE e \<longrightarrow>
      file_stream (32 * PAGE_SIZE e) (unat (st_size st)) file [] = Finished (f_bytes file))
   \<and> (fs_stat e path = Some st \<and> fs_fopen e path = Some file \<and> \<not> callback_response_ok e \<longrightarrow>
      on_file_request e w path
        = (MHD_NO, w\<lparr>events := events w @ [Opened (f_id file), Closed (f_id file)]\<rparr>))
   \<and> ((fs_stat e path = None \<or> fs_fopen e path = None) \<and> buffer_response_ok e \<longrightarrow>
      on_file_request e w path = (MHD_YES, w\<lparr>queued := queued w @
        [(404, \<lparr>resp_headers = [], resp_content = Buffer
           ''<html><head><title>File not found</title></head><body>File not found</body></html>''\<rparr>)]\<rparr>))
   \<and> ((fs_stat e path = None \<or> fs_fopen e path = None) \<and> \<not> buffer_response_ok e \<longrightarrow>
      on_file_request e w path = (MHD_NO, w))"
proof -
  have stream: "healthy file \<and> length (f_bytes file) = unat (st_size st) \<and> 0 < PAGE_SIZE e \<longrightarrow>
      file_stream (32 * PAGE_SIZE e) (unat (st_size st)) file [] = Finished (f_bytes file)"
    using file_stream_healthy [of "file" "32 * PAGE_SIZE e" "[]"] by auto
  have rest: "(fs_stat e path = Some st \<and> fs_fopen e path = Some file \<and> callback_response_ok e \<longrightarrow>
      on_file_request e w path = (MHD_YES, w\<lparr>queued := queued w @
        [(200, \<lparr>resp_headers = [],
                 resp_content = Callback (st_size st) (32 * PAGE_SIZE e) (FileReader file)\<rparr>)],
        events := events w @ [Opened (f_id file)]\<rparr>))
   \<and> (fs_stat e path = Some st \<and> fs_fopen e path = Some file \<and> \<not> callback_response_ok e \<longrightarrow>
      on_file_request e w path
        = (MHD_NO, w\<lparr>events := events w @ [Opened (f_id file), Closed (f_id file)]\<rparr>))
   \<and> ((fs_stat e path = None \<or> fs_fopen e path = None) \<and> buffer_response_ok e \<longrightarrow>
      on_file_request e w path = (MHD_YES, w\<lparr>queued := queued w @
        [(404, \<lparr>resp_headers = [], resp_content = Buffer
           ''<html><head><title>File not found</title></head><body>File not found</body></html>''\<rparr>)]\<rparr>))
   \<and> ((fs_stat e path = None \<or> fs_fopen e path = None) \<and> \<not> buffer_response_ok e \<longrightarrow>
      on_file_request e w path = (MHD_NO, w))"
    by (auto simp: on_file_request_def mhd_defs fclose_def PAGE_404_text Let_def
          split: option.splits)
  from stream rest show ?thesis
    by blast
qed
theorem on_file_request_serves_file_witness:
  "fs_stat demo_env ''/tmp/x/a.txt'' = Some \<lparr>st_mode = 0x81A4, st_size = 5\<rparr>
   \<and> fs_fopen demo_env ''/tmp/x/a.txt'' = Some demo_file
   \<and> callback_response_ok demo_env
   \<and> on_file_request demo_env world0 ''/tmp/x/a.txt'' = (MHD_YES, world0\<lparr>queued :=
        [(200, \<lparr>resp_headers = [],
                 resp_content = Callback 5 131072 (FileReader demo_file)\<rparr>)],
        events := [Opened 3]\<rparr>)
   \<and> healthy demo_file \<and> length (f_bytes demo_file) = unat (5 :: 64 word)
   \<and> 0 < PAGE_SIZE demo_env
   \<and> file_stream 131072 5 demo_file [] = Finished ''hello''
   \<and> fs_stat no_memory_env ''/tmp/x/a.txt'' = Some \<lparr>st_mode = 0x81A4, st_size = 5\<rparr>
   \<and> fs_fopen no_memory_env ''/tmp/x/a.txt'' = Some demo_file
   \<and> \<not> callback_response_ok no_memory_env
   \<and> on_file_request no_memory_env world0 ''/tmp/x/a.txt''
       = (MHD_NO, world0\<lparr>events := [Opened 3, Closed 3]\<rparr>)
   \<and> fs_fopen demo_env ''/tmp/x'' = None \<and> buffer_response_ok demo_env
   \<and> on_file_request demo_env world0 ''/tmp/x'' = (MHD_YES, world0\<lparr>queued :=
        [(404, \<lparr>resp_headers = [], resp_content = Buffer
           ''<html><head><title>File not found</title></head><body>File not found</body></html>''\<rparr>)]\<rparr>)
   \<and> fs_stat no_memory_env ''/nope'' = None \<and> \<not> buffer_response_ok no_memory_env
   \<and> on_file_request no_memory_env world0 ''/nope'' = (MHD_NO, world0)"
proof -
  have pre: "fs_stat demo_env ''/tmp/x/a.txt'' = Some \<lparr>st_mode = 0x81A4, st_size = 5\<rparr>"
    "fs_fopen demo_env ''/tmp/x/a.txt'' = Some demo_file" "callback_response_ok demo_env"
    "fs_stat no_memory_env ''/tmp/x/a.txt'' = Some \<lparr>st_mode = 0x81A4, st_size = 5\<rparr>"
    "fs_fopen no_memory_env ''/tmp/x/a.txt'' = Some demo_file"
    "\<not> callback_response_ok no_memory_env"
    "fs_fopen demo_env ''/tmp/x'' = None" "buffer_response_ok demo_env"
    "fs_stat no_memory_env ''/nope'' = None" "\<not> buffer_response_ok no_memory_env"
    "0 < PAGE_SIZE demo_env" "32 * PAGE_SIZE demo_env = 131072"
    by (simp_all add: demo_defs)
  have fl: "healthy demo_file" "length (f_bytes demo_file) = unat (5 :: 64 word)"
    "f_bytes demo_file = ''hello''" "f_id demo_file = 3"
    by (simp_all add: healthy_def demo_file_def)
  from pre fl
    on_file_request_serves_file [of demo_env "''/tmp/x/a.txt''"
      "\<lparr>st_mode = 0x81A4, st_size = 5\<rparr>" demo_file world0]
    on_file_request_serves_file [of no_memory_env "''/tmp/x/a.txt''"
      "\<lparr>st_mode = 0x81A4, st_size = 5\<rparr>" demo_file world0]
    on_file_request_serves_file [of demo_env "''/tmp/x''" _ _ world0]
    on_file_request_serves_file [of no_memory_env "''/nope''" _ _ world0]
  show ?thesis
    by (simp add: world0_def)
qed

text \<open>
  Without memory for the response object, the request for the regular file \<^verbatim>\<open>a.txt\<close>
  opens the file, closes it again and queues no response.
\<close>

theorem file_without_memory_counterexample:
  "fs_stat no_memory_env ''/tmp/x/a.txt'' = Some \<lparr>st_mode = 0x81A4, st_size = 5\<rparr>
   \<and> fs_fopen no_memory_env ''/tmp/x/a.txt'' = Some demo_file
   \<and> on_file_request no_memory_env world0 ''/tmp/x/a.txt''
       = (MHD_NO, world0\<lparr>events := [Opened 3, Closed 3]\<rparr>)
   \<and> queued (world0\<lparr>events := [Opened 3, Closed 3]\<rparr>) = []"
  by (simp add: on_file_request_def demo_defs mhd_defs fclose_def demo_file_def)

text \<open>A stream whose device fails ends the body early: here after two of five bytes.\<close>

lemma file_stream_faulty: "file_stream 2 5 faulty_file [] = Aborted ''he''"
proof -
  have "file_stream 2 5 faulty_file []
      = file_stream 2 5 (faulty_file\<lparr>f_error := True\<rparr>) ''he''"
    by (subst file_stream.simps)
      (simp add: on_file_read_def fseek_def fread_def ferror_def faulty_file_def
         MHD_CONTENT_READER_END_OF_STREAM_def)
  also have "\<dots> = Aborted ''he''"
    by (subst file_stream.simps)
      (simp add: on_file_read_def fseek_def fread_def ferror_def faulty_file_def
         MHD_CONTENT_READER_END_OF_STREAM_def MHD_CONTENT_READER_END_WITH_ERROR_def)
  finally show ?thesis .
qed

section \<open>The cross-origin header\<close>

text \<open>
  C1 asks that every response of the request handler carries the header
  \<^verbatim>\<open>Access-Control-Allow-Origin: *\<close> when it is handed to the HTTP layer. The handler
  calls \<^verbatim>\<open>MHD_queue_response\<close> itself and never the decorating wrapper: the 404, the 200
  file stream and the 200 directory listing are handed over with no header at all, and the
  301 with its \<^verbatim>\<open>Location\<close> header only.
\<close>

theorem fs_on_request_no_cors_header:
  "fs_on_request demo_env world0 ''/fs/does/not/exist''
     = Inr (MHD_YES, world0\<lparr>queued :=
         [(404, \<lparr>resp_headers = [], resp_content = Buffer PAGE_404\<rparr>)]\<rparr>)
   \<and> fs_on_request demo_env world0 ''/fs/tmp/x''
     = Inr (MHD_YES, world0\<lparr>queued :=
         [(301, \<lparr>resp_headers = [(''Location'', ''/fs/tmp/x/'')], resp_content = Buffer []\<rparr>)]\<rparr>)
   \<and> fs_on_request demo_env world0 ''/fs/tmp/x/a.txt''
     = Inr (MHD_YES, world0\<lparr>queued :=
         [(200, \<lparr>resp_headers = [],
                  resp_content = Callback 5 131072 (FileReader demo_file)\<rparr>)],
         events := [Opened 3]\<rparr>)
   \<and> fs_on_request demo_env world0 ''/fs/tmp/x/''
     = Inr (MHD_YES, world0\<lparr>queued :=
         [(200, \<lparr>resp_headers = [],
                  resp_content = Callback MHD_SIZE_UNKNOWN 131072 (DirReader 0)\<rparr>)],
         events := [Opened 4]\<rparr>)"
  by (simp add: fs_on_request_def on_dir_request_def on_file_request_def S_ISREG_def
        demo_defs mhd_defs demo_file_def demo_dir_def Let_def)

text \<open>What the wrapper adds to a response that is queued through it.\<close>

lemma websrv_queue_response_adds_header:
  "websrv_queue_response w status resp
     = (MHD_YES, w\<lparr>queued := queued w @
         [(status, resp\<lparr>resp_headers := resp_headers resp @
             [(''Access-Control-Allow-Origin'', ''*'')]\<rparr>)]\<rparr>)"
  by (simp add: websrv_queue_response_def mhd_defs
        MHD_HTTP_HEADER_ACCESS_CONTROL_ALLOW_ORIGIN_def)

section \<open>Closing the handles\<close>

text \<open>
  C9 asks that on every exit path of a request a handle that was opened is closed exactly
  once. For a directory listing the closure of the response is the address of \<open>sm\<close>, an
  automatic object of \<^verbatim>\<open>on_dir_request\<close>. The HTTP layer ends the response after that
  function has returned: the close callback then reads \<^verbatim>\<open>sm->dir\<close> from an object that
  is no longer alive, which is undefined, so nothing guarantees that the directory opened
  for \<^verbatim>\<open>/tmp/x/\<close> is closed.
\<close>

theorem dir_close_after_return:
  "fs_on_request demo_env world0 ''/fs/tmp/x/''
     = Inr (MHD_YES, world0\<lparr>queued :=
         [(200, \<lparr>resp_headers = [],
                  resp_content = Callback MHD_SIZE_UNKNOWN 131072 (DirReader 0)\<rparr>)],
         events := [Opened 4]\<rparr>)
   \<and> response_done
         \<lparr>resp_headers = [], resp_content = Callback MHD_SIZE_UNKNOWN 131072 (DirReader 0)\<rparr>
         (world0\<lparr>queued :=
           [(200, \<lparr>resp_headers = [],
                    resp_content = Callback MHD_SIZE_UNKNOWN 131072 (DirReader 0)\<rparr>)],
           events := [Opened 4]\<rparr>)
     = Inl UseAfterReturn"
  by (simp add: fs_on_request_def on_dir_request_def S_ISREG_def response_done_def
        on_dir_close_def demo_defs mhd_defs demo_dir_def Let_def)

text \<open>
  The other paths do close what they opened: the closure of a file response is the stream
  itself, and both responders close their handle themselves when the response object cannot
  be constructed. Both close callbacks do nothing for a null pointer, and the directory
  one nothing for a null handle.
\<close>

lemma file_close_after_return:
  "response_done
     \<lparr>resp_headers = [], resp_content = Callback 5 131072 (FileReader demo_file)\<rparr>
     (world0\<lparr>queued :=
         [(200, \<lparr>resp_headers = [],
                  resp_content = Callback 5 131072 (FileReader demo_file)\<rparr>)],
         events := [Opened 3]\<rparr>)
   = Inr (world0\<lparr>queued :=
         [(200, \<lparr>resp_headers = [],
                  resp_content = Callback 5 131072 (FileReader demo_file)\<rparr>)],
         events := [Opened 3, Closed 3]\<rparr>)"
  by (simp add: response_done_def on_file_close_def fclose_def demo_defs demo_file_def)

lemma close_callbacks_null:
  "on_file_close None w = w"
  "on_dir_close None w = Inr w"
  "locals w a = Some sm \<Longrightarrow> sm_dir sm = None \<Longrightarrow> on_dir_close (Some a) w = Inr w"
  by (simp_all add: on_file_close_def on_dir_close_def)

lemma on_dir_request_without_memory:
  "on_dir_request no_memory_env world0 ''/tmp/x/''
     = Inr (MHD_NO, world0\<lparr>events := [Opened 4, Closed 4]\<rparr>)"
  by (simp add: on_dir_request_def closedir_def demo_defs mhd_defs demo_dir_def Let_def)

section \<open>The body of a directory listing\<close>

lemma snprintf_fits:
  "length s < max' \<Longrightarrow> snprintf max' s = (s @ [CHR 0x00], int (length s))"
  by (simp add: snprintf_def)

lemma footer_length: "length footer_format = 19"
  by (simp add: footer_format_def)

lemma header_length: "length (header_format path) = 104 + 2 * length path"
  by (simp add: header_format_def)

lemma entry_length: "length (entry_format name) = 24 + 2 * length name"
  by (simp add: entry_format_def)

lemma dir_stream_done:
  "512 \<le> max' \<Longrightarrow> sm_state sm = 3 \<Longrightarrow> dir_stream max' sm body = Finished body"
  by (subst dir_stream.simps) (simp add: on_dir_read_def)

lemma dir_stream_footer:
  assumes "512 \<le> max'"
  shows "dir_stream max' \<lparr>sm_path = p, sm_dir = d, sm_state = 2\<rparr> body
    = Finished (body @ footer_format)"
proof -
  have "snprintf max' footer_format = (footer_format @ [CHR 0x00], 19)"
    using assms snprintf_fits [of footer_format max'] by (simp add: footer_length)
  then have "dir_stream max' \<lparr>sm_path = p, sm_dir = d, sm_state = 2\<rparr> body
      = dir_stream max' \<lparr>sm_path = p, sm_dir = d, sm_state = 3\<rparr> (body @ footer_format)"
    using assms
    by (subst dir_stream.simps)
      (simp add: on_dir_read_def MHD_CONTENT_READER_END_OF_STREAM_def footer_length)
  then show ?thesis
    using assms by (simp add: dir_stream_done)
qed

lemma dir_stream_entries:
  assumes big: "512 \<le> max'"
  shows "\<forall>name\<in>set names. \<not> starts_with_dot name \<longrightarrow> length (entry_format name) < max' \<Longrightarrow>
    dir_stream max' \<lparr>sm_path = p, sm_dir = Some \<lparr>d_id = i, d_entries = names\<rparr>, sm_state = 1\<rparr> body
    = Finished (body @ concat (map entry_format (filter (\<lambda>name. \<not> starts_with_dot name) names))
        @ footer_format)"
proof (induction names arbitrary: body)
  case Nil
  have "dir_stream max' \<lparr>sm_path = p, sm_dir = Some \<lparr>d_id = i, d_entries = []\<rparr>, sm_state = 1\<rparr> body
      = dir_stream max' \<lparr>sm_path = p, sm_dir = Some \<lparr>d_id = i, d_entries = []\<rparr>, sm_state = 2\<rparr> body"
    using big
    by (subst dir_stream.simps)
      (simp add: on_dir_read_def readdir_def MHD_CONTENT_READER_END_OF_STREAM_def)
  then show ?case
    using big by (simp add: dir_stream_footer)
next
  case (Cons name names)
  show ?case
  proof (cases "starts_with_dot name")
    case True
    then have "dir_stream max'
        \<lparr>sm_path = p, sm_dir = Some \<lparr>d_id = i, d_entries = name # names\<rparr>, sm_state = 1\<rparr> body
      = dir_stream max'
        \<lparr>sm_path = p, sm_dir = Some \<lparr>d_id = i, d_entries = names\<rparr>, sm_state = 1\<rparr> body"
      using big
      by (subst dir_stream.simps)
        (simp add: on_dir_read_def readdir_def MHD_CONTENT_READER_END_OF_STREAM_def)
    with True Cons show ?thesis
      by simp
  next
    case False
    with Cons.prems have fits: "length (entry_format name) < max'"
      by simp
    have "dir_stream max'
        \<lparr>sm_path = p, sm_dir = Some \<lparr>d_id = i, d_entries = name # names\<rparr>, sm_state = 1\<rparr> body
      = dir_stream max'
        \<lparr>sm_path = p, sm_dir = Some \<lparr>d_id = i, d_entries = names\<rparr>, sm_state = 1\<rparr>
        (body @ entry_format name)"
      using big False fits snprintf_fits [OF fits]
      by (subst dir_stream.simps)
        (simp add: on_dir_read_def readdir_def MHD_CONTENT_READER_END_OF_STREAM_def)
    with False Cons show ?thesis
      by simp
  qed
qed

lemma dir_stream_whole:
  assumes big: "512 \<le> max'"
    and head: "length (header_format p) < max'"
    and fits: "\<forall>name\<in>set names. \<not> starts_with_dot name \<longrightarrow> length (entry_format name) < max'"
  shows "dir_stream max' \<lparr>sm_path = p, sm_dir = Some \<lparr>d_id = i, d_entries = names\<rparr>, sm_state = 0\<rparr> []
    = Finished (header_format p
        @ concat (map entry_format (filter (\<lambda>name. \<not> starts_with_dot name) names))
        @ footer_format)"
proof -
  have "dir_stream max'
      \<lparr>sm_path = p, sm_dir = Some \<lparr>d_id = i, d_entries = names\<rparr>, sm_state = 0\<rparr> []
    = dir_stream max'
      \<lparr>sm_path = p, sm_dir = Some \<lparr>d_id = i, d_entries = names\<rparr>, sm_state = 1\<rparr>
      (header_format p)"
    using big head snprintf_fits [OF head]
    by (subst dir_stream.simps)
      (simp add: on_dir_read_def MHD_CONTENT_READER_END_OF_STREAM_def)
  then show ?thesis
    using dir_stream_entries [OF big fits] by simp
qed

text \<open>
  C2, as the code has it. Let the HTTP layer pull the body from the read callback, starting
  from the state the directory responder sets up (the path, the opened directory, phase
  0), with a capacity \<open>max'\<close> of at least 512 bytes at every call that leaves room for the
  header (\<open>104 + 2 * length path < max'\<close>) and for every listed entry
  (\<open>24 + 2 * length name < max'\<close>). Then the full streamed body is exactly the header with
  the blanks of the source's literals,
  \<^verbatim>\<open><!DOCTYPE html><html>  <head>    <title>Index of {path}</title>  </head>  <body>    <h1>Index of {path}</h1>    <ul>\<close>,
  then one \<^verbatim>\<open><li><a href="{name}">{name}</a></li>\<close> element for each entry of the
  directory whose name does not begin with a dot, in enumeration order and with the raw
  name as both href and text, then the footer \<^verbatim>\<open></ul></body></html>\<close>. Every entry whose
  name begins with a dot is left out, not only \<^verbatim>\<open>.\<close> and \<^verbatim>\<open>..\<close>.
\<close>

theorem dir_stream_listing:
  assumes "512 \<le> max'"
    and "104 + 2 * length path < max'"
    and "\<forall>name\<in>set names. \<not> starts_with_dot name \<longrightarrow> 24 + 2 * length name < max'"
  shows "dir_stream max'
      \<lparr>sm_path = path, sm_dir = Some \<lparr>d_id = i, d_entries = names\<rparr>, sm_state = 0\<rparr> []
    = Finished
       (''<!DOCTYPE html><html>  <head>    <title>Index of '' @ path @
        ''</title>  </head>  <body>    <h1>Index of '' @ path @ ''</h1>    <ul>'' @
        concat (map (\<lambda>name. ''<li><a href='' @ [CHR 0x22] @ name @ [CHR 0x22] @ ''>'' @
                              name @ ''</a></li>'')
                  (filter (\<lambda>name. \<not> starts_with_dot name) names)) @
        ''</ul></body></html>'')"
proof -
  have "dir_stream max'
      \<lparr>sm_path = path, sm_dir = Some \<lparr>d_id = i, d_entries = names\<rparr>, sm_state = 0\<rparr> []
    = Finished (header_format path
        @ concat (map entry_format (filter (\<lambda>name. \<not> starts_with_dot name) names))
        @ footer_format)"
    using assms by (intro dir_stream_whole) (simp_all add: header_length entry_length)
  moreover have "entry_format = (\<lambda>name. ''<li><a href='' @ [CHR 0x22] @ name @ [CHR 0x22] @ ''>'' @
                              name @ ''</a></li>'')"
    by (rule ext) (simp add: entry_format_def)
  ultimately show ?thesis
    by (simp add: header_format_def footer_format_def)
qed

theorem dir_stream_listing_witness:
  "(512::nat) \<le> 131072 \<and> 104 + 2 * length ''/tmp/x/'' < (131072::nat)
   \<and> dir_stream 131072 demo_sm []
     = Finished
        (''<!DOCTYPE html><html>  <head>    <title>Index of /tmp/x/</title>  </head>'' @
         ''  <body>    <h1>Index of /tmp/x/</h1>    <ul>'' @
         ''<li><a href='' @ [CHR 0x22] @ ''a.txt'' @ [CHR 0x22] @ ''>a.txt</a></li>'' @
         ''<li><a href='' @ [CHR 0x22] @ ''b.txt'' @ [CHR 0x22] @ ''>b.txt</a></li>'' @
         ''<li><a href='' @ [CHR 0x22] @ ''sub'' @ [CHR 0x22] @ ''>sub</a></li>'' @
         ''</ul></body></html>'')"
proof -
  have names: "\<forall>name\<in>set [''.'', ''..'', ''.git'', ''a.txt'', ''b.txt'', ''sub''].
      \<not> starts_with_dot name \<longrightarrow> 24 + 2 * length name < (131072::nat)"
    by simp
  have "(512::nat) \<le> 131072" "104 + 2 * length ''/tmp/x/'' < (131072::nat)"
    by simp_all
  from dir_stream_listing [OF this names, of 4]
  show ?thesis
    by (simp add: demo_sm_def demo_dir_def starts_with_dot_def)
qed

text \<open>
  For \<^verbatim>\<open>/tmp/x/\<close> the streamed body differs from the body the specification words: its
  header has the blanks, and the hidden entry \<^verbatim>\<open>.git\<close> is not listed.
\<close>

theorem listing_body_counterexample:
  "dir_stream 131072 demo_sm []
     = Finished
        (''<!DOCTYPE html><html>  <head>    <title>Index of /tmp/x/</title>  </head>'' @
         ''  <body>    <h1>Index of /tmp/x/</h1>    <ul>'' @
         ''<li><a href='' @ [CHR 0x22] @ ''a.txt'' @ [CHR 0x22] @ ''>a.txt</a></li>'' @
         ''<li><a href='' @ [CHR 0x22] @ ''b.txt'' @ [CHR 0x22] @ ''>b.txt</a></li>'' @
         ''<li><a href='' @ [CHR 0x22] @ ''sub'' @ [CHR 0x22] @ ''>sub</a></li>'' @
         ''</ul></body></html>'')
   \<and> spec_listing_body ''/tmp/x/'' [''.'', ''..'', ''.git'', ''a.txt'', ''b.txt'', ''sub'']
     = ''<!DOCTYPE html><html><head><title>Index of /tmp/x/</title></head>'' @
       ''<body><h1>Index of /tmp/x/</h1><ul>'' @
       ''<li><a href='' @ [CHR 0x22] @ ''.git'' @ [CHR 0x22] @ ''>.git</a></li>'' @
       ''<li><a href='' @ [CHR 0x22] @ ''a.txt'' @ [CHR 0x22] @ ''>a.txt</a></li>'' @
       ''<li><a href='' @ [CHR 0x22] @ ''b.txt'' @ [CHR 0x22] @ ''>b.txt</a></li>'' @
       ''<li><a href='' @ [CHR 0x22] @ ''sub'' @ [CHR 0x22] @ ''>sub</a></li>'' @
       ''</ul></body></html>''
   \<and> dir_stream 131072 demo_sm []
     \<noteq> Finished
        (spec_listing_body ''/tmp/x/'' [''.'', ''..'', ''.git'', ''a.txt'', ''b.txt'', ''sub''])"
proof -
  have fits: "\<forall>name\<in>set [''.'', ''..'', ''.git'', ''a.txt'', ''b.txt'', ''sub''].
      \<not> starts_with_dot name \<longrightarrow> length (entry_format name) < (131072::nat)"
    by (simp add: entry_length)
  have big: "(512::nat) \<le> 131072" and head: "length (header_format ''/tmp/x/'') < (131072::nat)"
    by (simp_all add: header_length)
  have code: "dir_stream 131072 demo_sm []
     = Finished
        (''<!DOCTYPE html><html>  <head>    <title>Index of /tmp/x/</title>  </head>'' @
         ''  <body>    <h1>Index of /tmp/x/</h1>    <ul>'' @
         ''<li><a href='' @ [CHR 0x22] @ ''a.txt'' @ [CHR 0x22] @ ''>a.txt</a></li>'' @
         ''<li><a href='' @ [CHR 0x22] @ ''b.txt'' @ [CHR 0x22] @ ''>b.txt</a></li>'' @
         ''<li><a href='' @ [CHR 0x22] @ ''sub'' @ [CHR 0x22] @ ''>sub</a></li>'' @
         ''</ul></body></html>'')"
    using dir_stream_whole [OF big head fits, of 4]
    by (simp add: demo_sm_def demo_dir_def starts_with_dot_def header_format_def
          entry_format_def footer_format_def)
  have spec: "spec_listing_body ''/tmp/x/'' [''.'', ''..'', ''.git'', ''a.txt'', ''b.txt'', ''sub'']
     = ''<!DOCTYPE html><html><head><title>Index of /tmp/x/</title></head>'' @
       ''<body><h1>Index of /tmp/x/</h1><ul>'' @
       ''<li><a href='' @ [CHR 0x22] @ ''.git'' @ [CHR 0x22] @ ''>.git</a></li>'' @
       ''<li><a href='' @ [CHR 0x22] @ ''a.txt'' @ [CHR 0x22] @ ''>a.txt</a></li>'' @
       ''<li><a href='' @ [CHR 0x22] @ ''b.txt'' @ [CHR 0x22] @ ''>b.txt</a></li>'' @
       ''<li><a href='' @ [CHR 0x22] @ ''sub'' @ [CHR 0x22] @ ''>sub</a></li>'' @
       ''</ul></body></html>''"
    by (simp add: spec_listing_body_def)
  have "dir_stream 131072 demo_sm []
     \<noteq> Finished
        (spec_listing_body ''/tmp/x/'' [''.'', ''..'', ''.git'', ''a.txt'', ''b.txt'', ''sub''])"
    unfolding code spec by simp
  with code spec show ?thesis
    by blast
qed

text \<open>
  An entry that does not fit the offered capacity makes the HTTP layer read past the end of
  its buffer.
\<close>

lemma dir_stream_long_name: "dir_stream 512 long_name_sm [] = Undefined BufferOverflow"
  using long_name_visible
  by (subst dir_stream.simps)
    (simp add: long_name_sm_def on_dir_read_def readdir_def snprintf_def entry_format_def
       MHD_CONTENT_READER_END_OF_STREAM_def)

end
